theory Spec2Isabelle
  imports Main
begin

section \<open>Data model\<close>

text \<open>
  The bot of \<^verbatim>\<open>main.py\<close> keeps named voice clips ("memes") in a store and answers
  chat events. The class \<^verbatim>\<open>Meme\<close> has the five fields the handlers pass to its
  constructor; \<^verbatim>\<open>id=None\<close> is the unset id of a record that has not been stored yet.
  A Python \<^verbatim>\<open>str\<close> is the list of its Unicode code points; \<open>lit\<close> is a literal of ASCII
  characters. File ids, command names and dictionary keys are opaque ASCII tokens.
\<close>

type_synonym str = "nat list"

definition lit :: "string \<Rightarrow> str" where
  "lit s = map of_char s"

record Meme =
  id' :: "int option"
  name :: str
  file_id :: string
  owner_id :: int
  times_used :: int

text \<open>
  Exceptions are values. \<open>KeyError\<close> is what the handlers catch for a lookup that misses
  (the NotFound of the specification), \<open>Unauthorized\<close> is \<^verbatim>\<open>model.exceptions.Unauthorized\<close>;
  \<open>NetworkError\<close>, \<open>ConversionError\<close> and \<open>TelegramError\<close> are the failures of the
  download, of the conversion and of sending a voice reply; \<open>AttributeError\<close> is Python's
  error for reading a field of \<^verbatim>\<open>None\<close>.
\<close>

datatype error =
  KeyError | Unauthorized | NetworkError | ConversionError | TelegramError | AttributeError

section \<open>The meme store\<close>

text \<open>
  Modelled from the spec: the module \<^verbatim>\<open>model\<close> (\<^verbatim>\<open>SqliteMemeStorage\<close>, \<^verbatim>\<open>Meme\<close>) is not
  among the sources. The store is one table of records in insertion order together with the
  counter from which ids are assigned, so that an id is never issued twice, also after a
  deletion.
\<close>

record storage =
  rows :: "Meme list"
  last_id :: int

text \<open>Modelled from the spec: \<^verbatim>\<open>SqliteMemeStorage\<close>, a store that holds no record yet.\<close>

definition SqliteMemeStorage :: storage where
  "SqliteMemeStorage = \<lparr>rows = [], last_id = 0\<rparr>"

text \<open>
  Modelled from the spec: \<^verbatim>\<open>add\<close> inserts a new record, the store assigns its id and
  returns the stored record; neither the name nor the file id is required to be new.
\<close>

definition add :: "storage \<Rightarrow> Meme \<Rightarrow> storage \<times> Meme" where
  "add s meme =
     (let stored = meme\<lparr>id' := Some (last_id s + 1)\<rparr>
      in (s\<lparr>rows := rows s @ [stored], last_id := last_id s + 1\<rparr>, stored))"

text \<open>
  Modelled from the spec: \<^verbatim>\<open>get_by_file_id\<close> is an exact lookup that fails with NotFound
  (\<open>KeyError\<close>) when no record matches. Where several records carry the file id, the
  oldest one answers.
\<close>

definition get_by_file_id :: "storage \<Rightarrow> string \<Rightarrow> error + Meme" where
  "get_by_file_id s fid =
     (case List.find (\<lambda>r. file_id r = fid) (rows s) of
        None \<Rightarrow> Inl KeyError
      | Some r \<Rightarrow> Inr r)"

text \<open>Modelled from the spec: \<^verbatim>\<open>get_all\<close> yields all records.\<close>

definition get_all :: "storage \<Rightarrow> Meme list" where
  "get_all s = rows s"

text \<open>
  Modelled from the spec: \<^verbatim>\<open>find\<close> yields the records whose name matches the query. The
  matching rule (substring or fuzzy) is not fixed by the specification and is the
  parameter \<open>matches\<close>.
\<close>

definition find' :: "(str \<Rightarrow> str \<Rightarrow> bool) \<Rightarrow> storage \<Rightarrow> str \<Rightarrow> Meme list" where
  "find' matches s query = filter (\<lambda>r. matches query (name r)) (rows s)"

text \<open>
  Modelled from the spec: \<^verbatim>\<open>delete_by_file_id\<close> fails with NotFound if the file id is
  absent, with Unauthorized if the requester is not the owner, and otherwise removes what
  is stored under the file id.
\<close>

definition delete_by_file_id :: "storage \<Rightarrow> string \<Rightarrow> int \<Rightarrow> error + storage" where
  "delete_by_file_id s fid requester_id =
     (case get_by_file_id s fid of
        Inl e \<Rightarrow> Inl e
      | Inr meme \<Rightarrow>
          if requester_id \<noteq> owner_id meme then Inl Unauthorized
          else Inr (s\<lparr>rows := filter (\<lambda>r. file_id r \<noteq> fid) (rows s)\<rparr>))"

text \<open>
  Modelled from the spec: \<^verbatim>\<open>rename\<close> fails with NotFound if no record has the id, with
  Unauthorized if the requester is not the owner, and otherwise updates the name in place.
\<close>

definition rename :: "storage \<Rightarrow> int option \<Rightarrow> str \<Rightarrow> int \<Rightarrow> error + storage" where
  "rename s i new_name requester_id =
     (case List.find (\<lambda>r. id' r = i) (rows s) of
        None \<Rightarrow> Inl KeyError
      | Some meme \<Rightarrow>
          if requester_id \<noteq> owner_id meme then Inl Unauthorized
          else Inr (s\<lparr>rows := map (\<lambda>r. if id' r = i then r\<lparr>name := new_name\<rparr> else r) (rows s)\<rparr>))"

section \<open>Chat events and the outside world\<close>

text \<open>
  The SDK delivers parsed events. A message has exactly one kind of content: a plain text
  (what \<^verbatim>\<open>Filters.text\<close> accepts: a text that is not a command), a command with its
  arguments (what a \<^verbatim>\<open>CommandHandler\<close> accepts, with \<^verbatim>\<open>args\<close> the words after the
  command), a voice note, an audio file, or a document with the verdict of the filter
  \<^verbatim>\<open>IsAudioDocument\<close> on it. \<open>reply_to_voice\<close> is the file id of the voice message
  that the message quotes, if it quotes one.
\<close>

datatype content =
    Text str
  | Command string "str list"
  | Voice string
  | Audio string
  | Document string bool
  | Other

record message =
  chat_id :: int
  from_user :: int
  content :: content
  reply_to_voice :: "string option"

datatype update = Message message | InlineQuery str

text \<open>
  What a handler sends. \<open>NoQuotedVoice\<close> is the notice of the decorator
  \<^verbatim>\<open>inject_quoted_voice_id\<close>, whose wording is in the module \<^verbatim>\<open>utils\<close>. An inline
  answer is the list of results, each with its result id, file id and title, and the cache
  time.
\<close>

datatype reply =
    ReplyText str
  | ReplyHTML str
  | ReplyVoice string
  | NoQuotedVoice
  | Answer "(string \<times> string \<times> str) list" int

text \<open>
  The collaborators outside \<^verbatim>\<open>main.py\<close>: the download of a file, the conversion to the
  voice codec, the platform's answer to a voice reply (the file id it assigns), the
  random result ids of \<^verbatim>\<open>uuid4\<close> and the matching rule of \<^verbatim>\<open>find\<close>.
\<close>

record env =
  download_file :: "string \<Rightarrow> error + string"
  convert_to_ogg :: "string \<Rightarrow> error + string"
  reply_voice :: "string \<Rightarrow> error + string"
  uuid4 :: "nat \<Rightarrow> string"
  matches :: "str \<Rightarrow> str \<Rightarrow> bool"

text \<open>
  A handler returns a value (\<^verbatim>\<open>None\<close> or a conversation state) or raises. Its effects
  are the store it leaves and the replies it has sent, in order.
\<close>

datatype outcome = Returned "int option" | Raised error

type_synonym handled = "storage \<times> reply list \<times> outcome"

definition NAME :: int where
  "NAME = 1"

text \<open>\<^verbatim>\<open>ConversationHandler.END\<close>\<close>

definition END :: int where
  "END = - 1"

section \<open>Helpers of Python\<close>

text \<open>
  \<^verbatim>\<open>str.isspace\<close> on one character of Python 3: the code points of the category Zs and
  of the bidirectional classes WS, B and S. These are tab to carriage return, the four
  information separators, the space, next line, the no-break space, the Ogham space mark,
  en quad to hair space, the line and the paragraph separator, the narrow no-break space,
  the medium mathematical space and the ideographic space.
\<close>

definition isspace :: "nat \<Rightarrow> bool" where
  "isspace c =
     ((0x09 \<le> c \<and> c \<le> 0x0D) \<or> (0x1C \<le> c \<and> c \<le> 0x20) \<or>
      c = 0x85 \<or> c = 0xA0 \<or> c = 0x1680 \<or> (0x2000 \<le> c \<and> c \<le> 0x200A) \<or>
      c = 0x2028 \<or> c = 0x2029 \<or> c = 0x202F \<or> c = 0x205F \<or> c = 0x3000)"

text \<open>\<^verbatim>\<open>str.strip()\<close>\<close>

definition strip :: "str \<Rightarrow> str" where
  "strip s = rev (dropWhile isspace (rev (dropWhile isspace s)))"

text \<open>\<^verbatim>\<open>sep.join(args)\<close>\<close>

fun join :: "str \<Rightarrow> str list \<Rightarrow> str" where
  "join sep [] = []"
| "join sep [x] = x"
| "join sep (x # y # ys) = x @ sep @ join sep (y # ys)"

text \<open>\<^verbatim>\<open>'..."{}"...'.format(x)\<close>: the text between double quotes.\<close>

definition quoted :: "str \<Rightarrow> str" where
  "quoted x = [0x22] @ x @ [0x22]"

section \<open>The handlers of main.py\<close>

definition cmd_cancel :: "storage \<Rightarrow> message \<Rightarrow> handled" where
  "cmd_cancel s message =
     (s, [ReplyText (lit ''Current operation has been canceled.'')], Returned (Some END))"

text \<open>
  Modelled from the spec: the filter \<^verbatim>\<open>IsMeme\<close> of the module \<^verbatim>\<open>custom_filters\<close> holds
  of a voice message whose file id is that of a stored meme.
\<close>

definition is_meme :: "storage \<Rightarrow> message \<Rightarrow> bool" where
  "is_meme s message =
     (case content message of
        Voice fid \<Rightarrow> (case get_by_file_id s fid of Inl e \<Rightarrow> False | Inr meme \<Rightarrow> True)
      | _ \<Rightarrow> False)"

definition meme_handler :: "storage \<Rightarrow> message \<Rightarrow> handled" where
  "meme_handler s message =
     (case content message of
        Voice fid \<Rightarrow>
          (case get_by_file_id s fid of
             Inl e \<Rightarrow> (s, [], Raised e)
           | Inr meme \<Rightarrow> (s, [ReplyText (lit ''Name: '' @ quoted (name meme))], Returned None))
      | _ \<Rightarrow> (s, [], Raised AttributeError))"

text \<open>
  \<^verbatim>\<open>audio_handler\<close> also writes \<^verbatim>\<open>user_data\<close>, the dictionary of the sender, which it
  returns with its other effects. \<open>ask_name\<close> is the common end of its two branches and
  \<open>convert_and_ask\<close> is its branch for a message that is no voice note. Sending a text
  reply is taken to succeed; the download, the conversion and the voice reply can raise.
\<close>

definition ask_name :: "storage \<Rightarrow> (string \<rightharpoonup> string) \<Rightarrow> reply list \<Rightarrow> string
    \<Rightarrow> (string \<rightharpoonup> string) \<times> handled" where
  "ask_name s user_data sent meme_file_id =
     (user_data(''meme_file_id'' \<mapsto> meme_file_id),
      s, sent @ [ReplyText (lit ''Okay, now send me the name for the meme.'')], Returned (Some NAME))"

definition convert_and_ask :: "env \<Rightarrow> storage \<Rightarrow> (string \<rightharpoonup> string) \<Rightarrow> string
    \<Rightarrow> (string \<rightharpoonup> string) \<times> handled" where
  "convert_and_ask e s user_data audio_file_id =
     (let sent = [ReplyText (lit ''Converting to voice...'')] in
      case download_file e audio_file_id of
        Inl err \<Rightarrow> (user_data, s, sent, Raised err)
      | Inr audio_file \<Rightarrow>
          (case convert_to_ogg e audio_file of
             Inl err \<Rightarrow> (user_data, s, sent, Raised err)
           | Inr meme_file \<Rightarrow>
               (case reply_voice e meme_file of
                  Inl err \<Rightarrow> (user_data, s, sent, Raised err)
                | Inr meme_file_id \<Rightarrow>
                    ask_name s user_data (sent @ [ReplyVoice meme_file]) meme_file_id)))"

definition audio_handler :: "env \<Rightarrow> storage \<Rightarrow> message \<Rightarrow> (string \<rightharpoonup> string)
    \<Rightarrow> (string \<rightharpoonup> string) \<times> handled" where
  "audio_handler e s message user_data =
     (case content message of
        Voice meme_file_id \<Rightarrow> ask_name s user_data [] meme_file_id
      | Audio fid \<Rightarrow> convert_and_ask e s user_data fid
      | Document fid is_audio \<Rightarrow> convert_and_ask e s user_data fid
      | _ \<Rightarrow> (user_data, s, [ReplyText (lit ''Converting to voice...'')], Raised AttributeError))"

definition name_handler :: "storage \<Rightarrow> message \<Rightarrow> (string \<rightharpoonup> string)
    \<Rightarrow> (string \<rightharpoonup> string) \<times> handled" where
  "name_handler s message user_data =
     (case content message of
        Text text \<Rightarrow>
          (let meme_name = strip text in
           case user_data ''meme_file_id'' of
             None \<Rightarrow> (user_data, s, [], Raised KeyError)
           | Some fid \<Rightarrow>
               (let meme = \<lparr>id' = None, name = meme_name, file_id = fid,
                            owner_id = from_user message, times_used = 0\<rparr>
                in (user_data, fst (add s meme), [ReplyText (lit ''Meme has been added.'')],
                    Returned (Some END))))
      | _ \<Rightarrow> (user_data, s, [], Raised AttributeError))"

text \<open>
  Modelled from the spec: the decorator \<^verbatim>\<open>inject_quoted_voice_id\<close> of the module
  \<^verbatim>\<open>utils\<close> hands the file id of the quoted voice message to the handler and, when the
  message quotes none, reports that to the user without running the handler.
\<close>

definition inject_quoted_voice_id :: "(storage \<Rightarrow> message \<Rightarrow> string \<Rightarrow> handled)
    \<Rightarrow> storage \<Rightarrow> message \<Rightarrow> handled" where
  "inject_quoted_voice_id handler s message =
     (case reply_to_voice message of
        None \<Rightarrow> (s, [NoQuotedVoice], Returned None)
      | Some quoted_voice_id \<Rightarrow> handler s message quoted_voice_id)"

definition cmd_name :: "storage \<Rightarrow> message \<Rightarrow> string \<Rightarrow> handled" where
  "cmd_name s message quoted_voice_id =
     (case get_by_file_id s quoted_voice_id of
        Inl e \<Rightarrow>
          if e = KeyError then (s, [ReplyText (lit ''I don't know that meme, sorry.'')], Returned None)
          else (s, [], Raised e)
      | Inr meme \<Rightarrow> (s, [ReplyText (name meme)], Returned None))"

definition cmd_delete :: "storage \<Rightarrow> message \<Rightarrow> string \<Rightarrow> handled" where
  "cmd_delete s message quoted_voice_id =
     (case get_by_file_id s quoted_voice_id of
        Inl e \<Rightarrow>
          if e = KeyError then (s, [ReplyText (lit ''I don't know that meme, sorry.'')], Returned None)
          else (s, [], Raised e)
      | Inr meme \<Rightarrow>
          (let meme_name = name meme in
           case delete_by_file_id s quoted_voice_id (from_user message) of
             Inl e \<Rightarrow>
               if e = Unauthorized
               then (s, [ReplyText (lit ''Sorry, you can only delete the memes you added yourself.'')],
                     Returned None)
               else (s, [], Raised e)
           | Inr s' \<Rightarrow>
               (s', [ReplyText (lit ''The meme '' @ quoted meme_name @ lit '' has been deleted.'')],
                Returned None)))"

definition cmd_rename :: "str list \<Rightarrow> storage \<Rightarrow> message \<Rightarrow> string \<Rightarrow> handled" where
  "cmd_rename args s message quoted_voice_id =
     (let new_name = join (lit '' '') args in
      if new_name = [] then (s, [ReplyHTML (lit ''Usage: /rename <i>new name</i>'')], Returned None)
      else
        case get_by_file_id s quoted_voice_id of
          Inl e \<Rightarrow>
            if e = KeyError then (s, [ReplyText (lit ''Sorry, I don't know that meme.'')], Returned None)
            else (s, [], Raised e)
        | Inr meme \<Rightarrow>
            (case rename s (id' meme) new_name (from_user message) of
               Inl e \<Rightarrow>
                 if e = Unauthorized
                 then (s, [ReplyText (lit ''Sorry, you can only rename the memes you added yourself.'')],
                       Returned None)
                 else (s, [], Raised e)
             | Inr s' \<Rightarrow>
                 (s', [ReplyText (lit ''The meme has been renamed to '' @ quoted new_name)],
                  Returned None)))"

text \<open>
  \<^verbatim>\<open>cmd_fix\<close> builds the new meme from a name, a file id and an owner only. Modelled from
  the spec: the class \<^verbatim>\<open>Meme\<close> then leaves the id unset and starts the use count at 0.
\<close>

definition cmd_fix :: "env \<Rightarrow> storage \<Rightarrow> message \<Rightarrow> string \<Rightarrow> handled" where
  "cmd_fix e s message quoted_voice_id =
     (case get_by_file_id s quoted_voice_id of
        Inl err \<Rightarrow>
          if err = KeyError then (s, [ReplyText (lit ''Sorry, I don't know that meme.'')], Returned None)
          else (s, [], Raised err)
      | Inr meme \<Rightarrow>
          (case delete_by_file_id s (file_id meme) (from_user message) of
             Inl err \<Rightarrow>
               if err = Unauthorized
               then (s, [ReplyText (lit ''Sorry, you can only fix the memes you added yourself.'')],
                     Returned None)
               else (s, [], Raised err)
           | Inr s' \<Rightarrow>
               (case download_file e quoted_voice_id of
                  Inl err \<Rightarrow> (s', [], Raised err)
                | Inr audio_file \<Rightarrow>
                    (case convert_to_ogg e audio_file of
                       Inl err \<Rightarrow> (s', [], Raised err)
                     | Inr fixed_file \<Rightarrow>
                         (case reply_voice e fixed_file of
                            Inl err \<Rightarrow> (s', [], Raised err)
                          | Inr fixed_file_id \<Rightarrow>
                              (fst (add s' \<lparr>id' = None, name = name meme,
                                             file_id = fixed_file_id,
                                             owner_id = owner_id meme, times_used = 0\<rparr>),
                               [ReplyVoice fixed_file, ReplyText (lit ''The meme has been fixed'')],
                               Returned None))))))"

text \<open>\<^verbatim>\<open>islice(memes, 10)\<close> is \<open>take 10\<close>; the k-th result gets the k-th random id.\<close>

definition inlinequery :: "env \<Rightarrow> storage \<Rightarrow> str \<Rightarrow> handled" where
  "inlinequery e s query =
     (let memes = (if query \<noteq> [] then find' (matches e) s query else get_all s);
          memes = take 10 memes;
          results = map (\<lambda>(k, meme). (uuid4 e k, file_id meme, name meme))
                        (zip [0 ..< length memes] memes)
      in (s, [Answer results 0], Returned None))"

section \<open>The dispatcher set up by main\<close>

text \<open>
  The state of the running bot: the store \<^verbatim>\<open>meme_storage\<close>, the conversation state of
  each pair of chat and user that is in a conversation (the key of a
  \<^verbatim>\<open>ConversationHandler\<close>), and the dictionary \<^verbatim>\<open>user_data\<close> of each user.
\<close>

record bot =
  meme_storage :: storage
  conversations :: "int \<times> int \<rightharpoonup> int"
  user_data :: "int \<Rightarrow> (string \<rightharpoonup> string)"

text \<open>At process start no conversation is open and every \<^verbatim>\<open>user_data\<close> is empty.\<close>

definition start :: "storage \<Rightarrow> bot" where
  "start s = \<lparr>meme_storage = s, conversations = Map.empty, user_data = (\<lambda>u. Map.empty)\<rparr>"

text \<open>
  What the conversation handler does with the value a callback returns: \<^verbatim>\<open>END\<close> closes
  the conversation, \<^verbatim>\<open>None\<close> keeps its state, another value becomes its state. A callback
  that raises leaves the state as it was.
\<close>

definition update_state :: "(int \<times> int \<rightharpoonup> int) \<Rightarrow> int \<times> int \<Rightarrow> outcome \<Rightarrow> (int \<times> int \<rightharpoonup> int)" where
  "update_state convs key out =
     (case out of
        Raised e \<Rightarrow> convs
      | Returned None \<Rightarrow> convs
      | Returned (Some new_state) \<Rightarrow>
          if new_state = END then convs(key := None) else convs(key \<mapsto> new_state))"

definition is_command :: "string \<Rightarrow> message \<Rightarrow> bool" where
  "is_command c message = (case content message of Command c' args \<Rightarrow> c' = c | _ \<Rightarrow> False)"

definition command_args :: "message \<Rightarrow> str list" where
  "command_args message = (case content message of Command c args \<Rightarrow> args | _ \<Rightarrow> [])"

text \<open>\<^verbatim>\<open>Filters.audio | Filters.voice | is_audio_document\<close>\<close>

definition audio_like :: "message \<Rightarrow> bool" where
  "audio_like message =
     (case content message of
        Audio fid \<Rightarrow> True
      | Voice fid \<Rightarrow> True
      | Document fid is_audio \<Rightarrow> is_audio
      | _ \<Rightarrow> False)"

text \<open>\<^verbatim>\<open>Filters.text\<close>\<close>

definition is_text :: "message \<Rightarrow> bool" where
  "is_text message = (case content message of Text t \<Rightarrow> True | _ \<Rightarrow> False)"

text \<open>A callback of the conversation, run for the key: its effects and the new state.\<close>

definition in_conversation :: "bot \<Rightarrow> message \<Rightarrow> (string \<rightharpoonup> string) \<times> handled
    \<Rightarrow> bot \<times> reply list \<times> outcome option" where
  "in_conversation b message r =
     (case r of (ud, s, sent, out) \<Rightarrow>
        (\<lparr>meme_storage = s,
          conversations = update_state (conversations b) (chat_id message, from_user message) out,
          user_data = (user_data b)(from_user message := ud)\<rparr>,
         sent, Some out))"

text \<open>A callback outside the conversation: only the store can change.\<close>

definition plain :: "bot \<Rightarrow> handled \<Rightarrow> bot \<times> reply list \<times> outcome option" where
  "plain b r = (case r of (s, sent, out) \<Rightarrow> (b\<lparr>meme_storage := s\<rparr>, sent, Some out))"

text \<open>
  \<^verbatim>\<open>conv_handler\<close> of \<^verbatim>\<open>main\<close>: without a state for the key only the entry point is tried;
  with a state the handlers of that state are tried and then the fallbacks. \<open>None\<close> means
  that the conversation handler does not take the update.
\<close>

definition conv_handler :: "env \<Rightarrow> bot \<Rightarrow> message \<Rightarrow> (bot \<times> reply list \<times> outcome option) option" where
  "conv_handler e b message =
     (let ud = user_data b (from_user message) in
      case conversations b (chat_id message, from_user message) of
        None \<Rightarrow>
          if \<not> is_meme (meme_storage b) message \<and> audio_like message
          then Some (in_conversation b message (audio_handler e (meme_storage b) message ud))
          else None
      | Some state \<Rightarrow>
          if state = NAME \<and> is_text message
          then Some (in_conversation b message (name_handler (meme_storage b) message ud))
          else if is_command ''cancel'' message
          then Some (in_conversation b message (ud, cmd_cancel (meme_storage b) message))
          else None)"

text \<open>
  The dispatcher hands an update to the first handler, in the order of \<^verbatim>\<open>add_handler\<close>,
  that accepts it, and to no other. The third component is \<open>None\<close> when no handler
  accepts the update.
\<close>

definition process_update :: "env \<Rightarrow> bot \<Rightarrow> update \<Rightarrow> bot \<times> reply list \<times> outcome option" where
  "process_update e b u =
     (case u of
        InlineQuery query \<Rightarrow> plain b (inlinequery e (meme_storage b) query)
      | Message message \<Rightarrow>
          (case conv_handler e b message of
             Some r \<Rightarrow> r
           | None \<Rightarrow>
               if is_meme (meme_storage b) message
               then plain b (meme_handler (meme_storage b) message)
               else if is_command ''name'' message
               then plain b (inject_quoted_voice_id cmd_name (meme_storage b) message)
               else if is_command ''delete'' message
               then plain b (inject_quoted_voice_id cmd_delete (meme_storage b) message)
               else if is_command ''rename'' message
               then plain b (inject_quoted_voice_id (cmd_rename (command_args message))
                               (meme_storage b) message)
               else if is_command ''fix'' message
               then plain b (inject_quoted_voice_id (cmd_fix e) (meme_storage b) message)
               else (b, [], None)))"

text \<open>The bot after a sequence of updates, each with the outside world it meets.\<close>

fun run :: "bot \<Rightarrow> (env \<times> update) list \<Rightarrow> bot" where
  "run b [] = b"
| "run b ((e, u) # us) = run (fst (process_update e b u)) us"


section \<open>Histories of the store\<close>

text \<open>
  The handlers reach the store through \<^verbatim>\<open>add\<close>, \<^verbatim>\<open>delete_by_file_id\<close> and
  \<^verbatim>\<open>rename\<close> only. A history is a sequence of such calls; a call that fails leaves the
  store as it was. \<open>issued_ids\<close> collects the ids that \<^verbatim>\<open>add\<close> has assigned along a
  history.
\<close>

datatype store_op =
    Add Meme
  | Delete string int
  | Rename "int option" str int

fun apply_op :: "storage \<Rightarrow> store_op \<Rightarrow> storage" where
  "apply_op s (Add meme) = fst (add s meme)"
| "apply_op s (Delete fid requester_id) =
     (case delete_by_file_id s fid requester_id of Inl e \<Rightarrow> s | Inr s' \<Rightarrow> s')"
| "apply_op s (Rename i new_name requester_id) =
     (case rename s i new_name requester_id of Inl e \<Rightarrow> s | Inr s' \<Rightarrow> s')"

fun store_after :: "storage \<Rightarrow> store_op list \<Rightarrow> storage" where
  "store_after s [] = s"
| "store_after s (x # ops) = store_after (apply_op s x) ops"


section \<open>Examples\<close>

text \<open>
  An outside world in which the download and the conversion succeed and the platform
  assigns the file id \<open>BBB\<close> to the voice reply, and one in which the download fails.
\<close>

definition example_env :: env where
  "example_env =
     \<lparr>download_file = (\<lambda>fid. Inr (''raw '' @ fid)),
      convert_to_ogg = (\<lambda>audio. Inr (''ogg '' @ audio)),
      reply_voice = (\<lambda>voice. Inr ''BBB''),
      uuid4 = (\<lambda>k. replicate (Suc k) CHR ''u''),
      matches = (\<lambda>query n. query = n)\<rparr>"

definition offline_env :: env where
  "offline_env = example_env\<lparr>download_file := (\<lambda>fid. Inl NetworkError)\<rparr>"

text \<open>The store after user 1 has added the meme "oof" with the file id \<open>AAA\<close>.\<close>

definition oof :: Meme where
  "oof = \<lparr>id' = Some 1, name = lit ''oof'', file_id = ''AAA'', owner_id = 1, times_used = 0\<rparr>"

definition example_storage :: storage where
  "example_storage = \<lparr>rows = [oof], last_id = 1\<rparr>"

definition example_bot :: bot where
  "example_bot = start example_storage"

text \<open>Messages of user 1 and of user 2, each in the private chat of that user.\<close>

definition from_1 :: "content \<Rightarrow> string option \<Rightarrow> message" where
  "from_1 c q = \<lparr>chat_id = 1, from_user = 1, content = c, reply_to_voice = q\<rparr>"

definition from_2 :: "content \<Rightarrow> string option \<Rightarrow> message" where
  "from_2 c q = \<lparr>chat_id = 2, from_user = 2, content = c, reply_to_voice = q\<rparr>"

text \<open>User 2 has sent a voice note that is no meme yet and is asked for its name.\<close>

definition awaiting_name_bot :: bot where
  "awaiting_name_bot = fst (process_update example_env example_bot (Message (from_2 (Voice ''CCC'') None)))"

text \<open>User 2 then sends \<^verbatim>\<open>/cancel\<close>.\<close>

definition canceled_bot :: bot where
  "canceled_bot = fst (process_update example_env awaiting_name_bot (Message (from_2 (Command ''cancel'' []) None)))"

text \<open>User 1 quotes the meme in \<^verbatim>\<open>/fix\<close>: once with everything working, once offline.\<close>

definition fixed_bot :: bot where
  "fixed_bot = fst (process_update example_env example_bot (Message (from_1 (Command ''fix'' []) (Some ''AAA''))))"

definition broken_bot :: bot where
  "broken_bot = fst (process_update offline_env example_bot (Message (from_1 (Command ''fix'' []) (Some ''AAA''))))"

text \<open>A bot whose store holds eleven memes.\<close>

definition crowded_bot :: bot where
  "crowded_bot =
     start \<lparr>rows = map (\<lambda>k. \<lparr>id' = Some (int k), name = lit ''meme'',
                               file_id = replicate k CHR ''x'', owner_id = 1, times_used = 0\<rparr>)
                      [1 ..< 12],
            last_id = 11\<rparr>"

text \<open>
  Two users send the same voice note, which is no meme yet, and then name it: first user 2,
  who calls it "b", then user 1, who calls it "a". The store then holds two records under
  the one file id.
\<close>

definition meme_b :: Meme where
  "meme_b = \<lparr>id' = Some 1, name = lit ''b'', file_id = ''XXX'', owner_id = 2, times_used = 0\<rparr>"

definition meme_a :: Meme where
  "meme_a = \<lparr>id' = Some 2, name = lit ''a'', file_id = ''XXX'', owner_id = 1, times_used = 0\<rparr>"


section \<open>Facts about the store\<close>

lemma find_file_id_Some:
  "List.find (\<lambda>r. file_id r = fid) xs = Some r \<Longrightarrow> r \<in> set xs \<and> file_id r = fid"
  by (induction xs) (auto split: if_splits)

lemma get_by_file_id_Inr:
  "get_by_file_id s fid = Inr meme \<Longrightarrow> meme \<in> set (rows s) \<and> file_id meme = fid"
  by (auto simp: get_by_file_id_def split: option.splits dest: find_file_id_Some)

lemma get_by_file_id_Inl:
  "get_by_file_id s fid = Inl err \<longleftrightarrow> err = KeyError \<and> fid \<notin> file_id ` set (rows s)"
  by (auto simp: get_by_file_id_def find_None_iff split: option.splits dest: find_file_id_Some)

lemma get_by_file_id_stored:
  "distinct (map file_id (rows s)) \<Longrightarrow> meme \<in> set (rows s) \<Longrightarrow>
     get_by_file_id s (file_id meme) = Inr meme"
proof -
  have "distinct (map file_id xs) \<Longrightarrow> meme \<in> set xs \<Longrightarrow>
          List.find (\<lambda>r. file_id r = file_id meme) xs = Some meme" for xs
    by (induction xs) auto
  then show "distinct (map file_id (rows s)) \<Longrightarrow> meme \<in> set (rows s) \<Longrightarrow>
     get_by_file_id s (file_id meme) = Inr meme"
    by (simp add: get_by_file_id_def)
qed

section \<open>Routing of commands\<close>

lemma command_not_in_conversation:
  assumes "content message = Command c args" and "c \<noteq> ''cancel''"
  shows "conv_handler e b message = None"
  using assms
  by (simp add: conv_handler_def Let_def is_meme_def audio_like_def is_text_def is_command_def
      split: option.splits)

lemma command_is_no_meme:
  "content message = Command c args \<Longrightarrow> \<not> is_meme s message"
  by (simp add: is_meme_def)

lemma plain_same_storage: "plain b (meme_storage b, sent, out) = (b, sent, Some out)"
  by (simp add: plain_def)

section \<open>The add-meme conversation\<close>

text \<open>\<^verbatim>\<open>strip\<close> removes the no-break space and the next-line character as well.\<close>

lemma strip_no_break_space: "strip ([0xA0] @ lit ''x'' @ [0x85]) = lit ''x''"
  by (simp add: strip_def isspace_def lit_def)

lemma voice_starts_conversation:
  assumes "conversations b (chat_id message, from_user message) = None"
    and "content message = Voice fid"
    and "get_by_file_id (meme_storage b) fid = Inl KeyError"
  shows "process_update e b (Message message) =
           (\<lparr>meme_storage = meme_storage b,
             conversations = (conversations b)((chat_id message, from_user message) \<mapsto> NAME),
             user_data = (user_data b)(from_user message :=
               (user_data b (from_user message))(''meme_file_id'' \<mapsto> fid))\<rparr>,
            [ReplyText (lit ''Okay, now send me the name for the meme.'')],
            Some (Returned (Some NAME)))"
proof -
  have "\<not> is_meme (meme_storage b) message" and "audio_like message"
    using assms(2,3) by (simp_all add: is_meme_def audio_like_def)
  then have "conv_handler e b message =
      Some (in_conversation b message
        (audio_handler e (meme_storage b) message (user_data b (from_user message))))"
    using assms(1) by (simp add: conv_handler_def)
  moreover have "audio_handler e (meme_storage b) message (user_data b (from_user message)) =
      ((user_data b (from_user message))(''meme_file_id'' \<mapsto> fid), meme_storage b,
       [ReplyText (lit ''Okay, now send me the name for the meme.'')], Returned (Some NAME))"
    using assms(2) by (simp add: audio_handler_def ask_name_def)
  ultimately show ?thesis
    by (simp add: process_update_def in_conversation_def update_state_def NAME_def END_def)
qed

lemma name_ends_conversation:
  assumes "conversations b (chat_id message, from_user message) = Some NAME"
    and "user_data b (from_user message) ''meme_file_id'' = Some fid"
    and "content message = Text t"
  shows "process_update e b (Message message) =
           (\<lparr>meme_storage = fst (add (meme_storage b)
                \<lparr>id' = None, name = strip t, file_id = fid,
                 owner_id = from_user message, times_used = 0\<rparr>),
             conversations = (conversations b)((chat_id message, from_user message) := None),
             user_data = user_data b\<rparr>,
            [ReplyText (lit ''Meme has been added.'')],
            Some (Returned (Some END)))"
proof -
  have "conv_handler e b message =
      Some (in_conversation b message
        (name_handler (meme_storage b) message (user_data b (from_user message))))"
    using assms(1,3) by (simp add: conv_handler_def is_text_def)
  moreover have "name_handler (meme_storage b) message (user_data b (from_user message)) =
      (user_data b (from_user message),
       fst (add (meme_storage b)
         \<lparr>id' = None, name = strip t, file_id = fid,
          owner_id = from_user message, times_used = 0\<rparr>),
       [ReplyText (lit ''Meme has been added.'')], Returned (Some END))"
    using assms(2,3) by (simp add: name_handler_def)
  ultimately show ?thesis
    by (simp add: process_update_def in_conversation_def update_state_def)
qed

lemma example_bot_idle: "conversations example_bot k = None"
  by (simp add: example_bot_def start_def)

lemma example_bot_storage: "meme_storage example_bot = example_storage"
  by (simp add: example_bot_def start_def)

lemma CCC_unknown: "get_by_file_id example_storage ''CCC'' = Inl KeyError"
  by (simp add: example_storage_def get_by_file_id_def oof_def)


lemma awaiting_name_bot_eq:
  "awaiting_name_bot =
     \<lparr>meme_storage = example_storage,
      conversations = Map.empty((2, 2) \<mapsto> NAME),
      user_data = (\<lambda>u. Map.empty)(2 := [''meme_file_id'' \<mapsto> ''CCC''])\<rparr>"
proof -
  have "conversations example_bot
      (chat_id (from_2 (Voice ''CCC'') None), from_user (from_2 (Voice ''CCC'') None)) = None"
    by (rule example_bot_idle)
  moreover have "content (from_2 (Voice ''CCC'') None) = Voice ''CCC''"
    by (simp add: from_2_def)
  moreover have "get_by_file_id (meme_storage example_bot) ''CCC'' = Inl KeyError"
    by (simp add: example_bot_storage CCC_unknown)
  ultimately have "process_update example_env example_bot (Message (from_2 (Voice ''CCC'') None)) =
           (\<lparr>meme_storage = meme_storage example_bot,
             conversations = (conversations example_bot)((chat_id (from_2 (Voice ''CCC'') None), from_user (from_2 (Voice ''CCC'') None)) \<mapsto> NAME),
             user_data = (user_data example_bot)(from_user (from_2 (Voice ''CCC'') None) :=
               (user_data example_bot (from_user (from_2 (Voice ''CCC'') None)))(''meme_file_id'' \<mapsto> ''CCC''))\<rparr>,
            [ReplyText (lit ''Okay, now send me the name for the meme.'')],
            Some (Returned (Some NAME)))"
    by (rule voice_starts_conversation)
  then show ?thesis
    by (simp add: awaiting_name_bot_def from_2_def example_bot_def start_def)
qed










lemma cancel_closes_conversation:
  assumes "conversations b (chat_id message, from_user message) = Some state"
    and "content message = Command ''cancel'' args"
  shows "process_update e b (Message message) =
           (b\<lparr>conversations := (conversations b)((chat_id message, from_user message) := None)\<rparr>,
            [ReplyText (lit ''Current operation has been canceled.'')],
            Some (Returned (Some END)))"
proof -
  have "conv_handler e b message =
      Some (in_conversation b message
        (user_data b (from_user message), cmd_cancel (meme_storage b) message))"
    using assms by (simp add: conv_handler_def is_text_def is_command_def)
  then show ?thesis
    by (cases b) (simp add: process_update_def in_conversation_def update_state_def cmd_cancel_def)
qed

text \<open>
  C7, as the code has it. A \<^verbatim>\<open>/cancel\<close> command in an open conversation closes it and is
  answered with the notice of cancellation. \<^verbatim>\<open>cmd_cancel\<close> is not given
  \<^verbatim>\<open>user_data\<close>: the pending file id stays in the dictionary of the user, and the
  store is left as it was.
\<close>

theorem cancel_returns_to_idle:
  assumes "conversations b (chat_id message, from_user message) = Some state"
    and "content message = Command ''cancel'' args"
    and "process_update e b (Message message) = (b', sent, out)"
  shows "conversations b' (chat_id message, from_user message) = None \<and>
         sent = [ReplyText (lit ''Current operation has been canceled.'')] \<and>
         user_data b' = user_data b \<and>
         meme_storage b' = meme_storage b"
  using cancel_closes_conversation [OF assms(1,2), of e] assms(3) by auto

theorem cancel_returns_to_idle_witness:
  "conversations awaiting_name_bot (2, 2) = Some NAME \<and>
   conversations canceled_bot (2, 2) = None \<and>
   user_data canceled_bot = user_data awaiting_name_bot \<and>
   meme_storage canceled_bot = meme_storage awaiting_name_bot"
proof -
  have state: "conversations awaiting_name_bot
      (chat_id (from_2 (Command ''cancel'' []) None),
       from_user (from_2 (Command ''cancel'' []) None)) = Some NAME"
    by (simp add: awaiting_name_bot_eq from_2_def)
  have cmd: "content (from_2 (Command ''cancel'' []) None) = Command ''cancel'' []"
    by (simp add: from_2_def)
  have step: "process_update example_env awaiting_name_bot
        (Message (from_2 (Command ''cancel'' []) None)) =
      (canceled_bot,
       fst (snd (process_update example_env awaiting_name_bot
         (Message (from_2 (Command ''cancel'' []) None)))),
       snd (snd (process_update example_env awaiting_name_bot
         (Message (from_2 (Command ''cancel'' []) None)))))"
    by (simp add: canceled_bot_def)
  have key: "chat_id (from_2 (Command ''cancel'' []) None) = 2"
    "from_user (from_2 (Command ''cancel'' []) None) = 2"
    by (simp_all add: from_2_def)
  show ?thesis
    using cancel_returns_to_idle [OF state cmd step] state
    by (simp add: key)
qed

text \<open>
  C7, as it is stated, fails: user 2 sends a voice note that is no meme and then
  \<^verbatim>\<open>/cancel\<close>. The conversation is closed, but the pending file id \<open>CCC\<close> is still held
  in the \<^verbatim>\<open>user_data\<close> of user 2.
\<close>

theorem cancel_discards_pending_counterexample:
  "conversations awaiting_name_bot (2, 2) = Some NAME \<and>
   user_data awaiting_name_bot 2 ''meme_file_id'' = Some ''CCC'' \<and>
   conversations canceled_bot (2, 2) = None \<and>
   user_data canceled_bot 2 ''meme_file_id'' = Some ''CCC''"
proof -
  have "conversations awaiting_name_bot
      (chat_id (from_2 (Command ''cancel'' []) None),
       from_user (from_2 (Command ''cancel'' []) None)) = Some NAME"
    by (simp add: awaiting_name_bot_eq from_2_def)
  moreover have "content (from_2 (Command ''cancel'' []) None) = Command ''cancel'' []"
    by (simp add: from_2_def)
  ultimately have "process_update example_env awaiting_name_bot
        (Message (from_2 (Command ''cancel'' []) None)) =
      (awaiting_name_bot\<lparr>conversations := (conversations awaiting_name_bot)
          ((chat_id (from_2 (Command ''cancel'' []) None),
            from_user (from_2 (Command ''cancel'' []) None)) := None)\<rparr>,
       [ReplyText (lit ''Current operation has been canceled.'')], Some (Returned (Some END)))"
    by (rule cancel_closes_conversation)
  then have canceled: "canceled_bot = awaiting_name_bot\<lparr>conversations := (conversations awaiting_name_bot)
          ((2, 2) := None)\<rparr>"
    by (simp add: canceled_bot_def from_2_def)
  show ?thesis
    by (simp add: canceled awaiting_name_bot_eq)
qed

section \<open>Deleting\<close>





section \<open>Known memes\<close>

text \<open>
  C6. A voice message whose file id is that of a stored meme is not taken by the
  conversation handler, whatever the state of the sender's conversation, and is answered
  by \<^verbatim>\<open>meme_handler\<close> with the stored name alone, in the template \<^verbatim>\<open>Name: "..."\<close>.
  The bot is left as it was: no conversation is entered and no pending file id is written.
\<close>

theorem known_voice_answered_with_name:
  assumes "content message = Voice fid"
    and "get_by_file_id (meme_storage b) fid = Inr meme"
  shows "conv_handler e b message = None \<and>
         process_update e b (Message message) =
           (b, [ReplyText (lit ''Name: '' @ quoted (name meme))], Some (Returned None))"
proof -
  have known: "is_meme (meme_storage b) message"
    using assms by (simp add: is_meme_def)
  then have skipped: "conv_handler e b message = None"
    using assms(1)
    by (simp add: conv_handler_def Let_def is_text_def is_command_def split: option.splits)
  have "meme_handler (meme_storage b) message =
      (meme_storage b, [ReplyText (lit ''Name: '' @ quoted (name meme))], Returned None)"
    using assms by (simp add: meme_handler_def)
  with known skipped show ?thesis
    by (simp add: process_update_def plain_same_storage)
qed

theorem known_voice_answered_with_name_witness:
  "get_by_file_id (meme_storage example_bot) ''AAA'' = Inr oof \<and>
   conv_handler example_env example_bot (from_2 (Voice ''AAA'') None) = None \<and>
   process_update example_env example_bot (Message (from_2 (Voice ''AAA'') None)) =
     (example_bot, [ReplyText (lit (''Name: '' @ [CHR 0x22] @ ''oof'' @ [CHR 0x22]))],
      Some (Returned None))"
proof -
  have voice: "content (from_2 (Voice ''AAA'') None) = Voice ''AAA''"
    by (simp add: from_2_def)
  have found: "get_by_file_id (meme_storage example_bot) ''AAA'' = Inr oof"
    by (simp add: example_bot_storage example_storage_def get_by_file_id_def oof_def)
  have "name oof = lit ''oof''"
    by (simp add: oof_def)
  then show ?thesis
    using known_voice_answered_with_name [OF voice found, of example_env] found
    by (simp add: quoted_def lit_def)
qed

section \<open>Fixing the playback\<close>

lemma get_by_file_id_after_delete:
  "get_by_file_id (s\<lparr>rows := filter (\<lambda>r. file_id r \<noteq> fid) (rows s)\<rparr>) fid = Inl KeyError"
  by (auto simp: get_by_file_id_Inl)

lemma find_append_eq:
  "List.find P (xs @ ys) = (case List.find P xs of None \<Rightarrow> List.find P ys | Some x \<Rightarrow> Some x)"
  by (induction xs) auto

lemma get_by_file_id_add_other:
  "file_id meme \<noteq> fid \<Longrightarrow> get_by_file_id (fst (add s meme)) fid = get_by_file_id s fid"
  by (simp add: get_by_file_id_def add_def Let_def find_append_eq split: option.splits)

lemma find_append_fresh:
  "\<forall>r \<in> set xs. \<not> P r \<Longrightarrow> P x \<Longrightarrow> List.find P (xs @ [x]) = Some x"
  by (induction xs) auto

lemma get_by_file_id_add_fresh:
  assumes "file_id meme \<notin> file_id ` set (rows s)"
  shows "get_by_file_id (fst (add s meme)) (file_id meme) = Inr (snd (add s meme))"
proof -
  have "\<forall>r \<in> set (rows s). \<not> file_id r = file_id meme"
    using assms by (metis imageI)
  then have "List.find (\<lambda>r. file_id r = file_id meme)
          (rows s @ [meme\<lparr>id' := Some (last_id s + 1)\<rparr>]) =
        Some (meme\<lparr>id' := Some (last_id s + 1)\<rparr>)"
    by (rule find_append_fresh) simp
  then show ?thesis
    by (simp add: get_by_file_id_def add_def Let_def)
qed

lemma fix_command_runs_cmd_fix:
  assumes "content message = Command ''fix'' args"
    and "reply_to_voice message = Some fid"
  shows "process_update e b (Message message) = plain b (cmd_fix e (meme_storage b) message fid)"
proof -
  have "conv_handler e b message = None"
    using assms(1) by (simp add: command_not_in_conversation)
  then show ?thesis
    using assms
    by (simp add: process_update_def command_is_no_meme is_command_def
        inject_quoted_voice_id_def)
qed

text \<open>
  C3. The owner of a stored meme quotes its voice message in a \<^verbatim>\<open>/fix\<close> command; the
  download, the conversion and the voice reply succeed, and the platform assigns to the
  voice reply a file id that the store does not hold. Then the command succeeds, the old
  file id no longer resolves, and the new file id resolves to a record with the name and
  the owner of the old one.
\<close>

theorem fix_replaces_record:
  assumes "get_by_file_id (meme_storage b) fid = Inr meme"
    and "from_user message = owner_id meme"
    and "content message = Command ''fix'' args"
    and "reply_to_voice message = Some fid"
    and "download_file e fid = Inr audio_file"
    and "convert_to_ogg e audio_file = Inr fixed_file"
    and "reply_voice e fixed_file = Inr fixed_file_id"
    and "fixed_file_id \<notin> file_id ` set (rows (meme_storage b))"
    and "process_update e b (Message message) = (b', sent, out)"
  shows "sent = [ReplyVoice fixed_file, ReplyText (lit ''The meme has been fixed'')] \<and>
         out = Some (Returned None) \<and>
         get_by_file_id (meme_storage b') fid = Inl KeyError \<and>
         fixed_file_id \<noteq> fid \<and>
         get_by_file_id (meme_storage b') fixed_file_id =
           Inr \<lparr>id' = Some (last_id (meme_storage b) + 1), name = name meme,
                file_id = fixed_file_id, owner_id = owner_id meme, times_used = 0\<rparr>"
proof -
  define s where "s = meme_storage b"
  define s' where "s' = s\<lparr>rows := filter (\<lambda>r. file_id r \<noteq> fid) (rows s)\<rparr>"
  define fixed where "fixed = \<lparr>id' = None, name = name meme, file_id = fixed_file_id,
      owner_id = owner_id meme, times_used = 0\<rparr>"
  have stored: "meme \<in> set (rows s)" and fid: "file_id meme = fid"
    using get_by_file_id_Inr [OF assms(1)] by (simp_all add: s_def)
  have differs: "fixed_file_id \<noteq> fid"
    using stored fid assms(8) by (auto simp: s_def)
  have deleted: "delete_by_file_id s (file_id meme) (from_user message) = Inr s'"
    using assms(1,2) by (simp add: delete_by_file_id_def fid s_def s'_def)
  have "cmd_fix e s message fid =
      (fst (add s' fixed), [ReplyVoice fixed_file, ReplyText (lit ''The meme has been fixed'')],
       Returned None)"
    using assms(1,5,6,7) deleted by (simp add: cmd_fix_def s_def fixed_def)
  then have "process_update e b (Message message) =
      (b\<lparr>meme_storage := fst (add s' fixed)\<rparr>,
       [ReplyVoice fixed_file, ReplyText (lit ''The meme has been fixed'')], Some (Returned None))"
    using fix_command_runs_cmd_fix [OF assms(3,4), of e b] by (simp add: plain_def s_def)
  with assms(9) have store: "meme_storage b' = fst (add s' fixed)"
    and sent: "sent = [ReplyVoice fixed_file, ReplyText (lit ''The meme has been fixed'')]"
    and out: "out = Some (Returned None)"
    by auto
  have old: "get_by_file_id (meme_storage b') fid = Inl KeyError"
    using differs
    by (simp add: store get_by_file_id_add_other fixed_def s'_def get_by_file_id_after_delete)
  have "file_id fixed \<notin> file_id ` set (rows s')"
    using assms(8) by (auto simp: fixed_def s'_def s_def)
  then have "get_by_file_id (fst (add s' fixed)) (file_id fixed) = Inr (snd (add s' fixed))"
    by (rule get_by_file_id_add_fresh)
  then have new: "get_by_file_id (meme_storage b') fixed_file_id =
           Inr \<lparr>id' = Some (last_id (meme_storage b) + 1), name = name meme,
                file_id = fixed_file_id, owner_id = owner_id meme, times_used = 0\<rparr>"
    by (simp add: store fixed_def add_def Let_def s'_def s_def)
  from sent out old differs new show ?thesis by simp
qed

theorem fix_replaces_record_witness:
  "get_by_file_id (meme_storage example_bot) ''AAA'' = Inr oof \<and>
   from_user (from_1 (Command ''fix'' []) (Some ''AAA'')) = owner_id oof \<and>
   ''BBB'' \<notin> file_id ` set (rows (meme_storage example_bot)) \<and>
   get_by_file_id (meme_storage fixed_bot) ''AAA'' = Inl KeyError \<and>
   get_by_file_id (meme_storage fixed_bot) ''BBB'' =
     Inr \<lparr>id' = Some 2, name = lit ''oof'', file_id = ''BBB'', owner_id = 1, times_used = 0\<rparr>"
proof -
  have found: "get_by_file_id (meme_storage example_bot) ''AAA'' = Inr oof"
    by (simp add: example_bot_storage example_storage_def get_by_file_id_def oof_def)
  have owner: "from_user (from_1 (Command ''fix'' []) (Some ''AAA'')) = owner_id oof"
    by (simp add: from_1_def oof_def)
  have cmd: "content (from_1 (Command ''fix'' []) (Some ''AAA'')) = Command ''fix'' []"
    and quote: "reply_to_voice (from_1 (Command ''fix'' []) (Some ''AAA'')) = Some ''AAA''"
    by (simp_all add: from_1_def)
  have down: "download_file example_env ''AAA'' = Inr ''raw AAA''"
    and conv: "convert_to_ogg example_env ''raw AAA'' = Inr ''ogg raw AAA''"
    and up: "reply_voice example_env ''ogg raw AAA'' = Inr ''BBB''"
    by (simp_all add: example_env_def)
  have fresh: "''BBB'' \<notin> file_id ` set (rows (meme_storage example_bot))"
    by (simp add: example_bot_storage example_storage_def oof_def)
  have step: "process_update example_env example_bot
        (Message (from_1 (Command ''fix'' []) (Some ''AAA''))) =
      (fixed_bot,
       fst (snd (process_update example_env example_bot
         (Message (from_1 (Command ''fix'' []) (Some ''AAA''))))),
       snd (snd (process_update example_env example_bot
         (Message (from_1 (Command ''fix'' []) (Some ''AAA''))))))"
    by (simp add: fixed_bot_def)
  have facts: "name oof = lit ''oof''" "owner_id oof = 1" "last_id (meme_storage example_bot) = 1"
    by (simp_all add: oof_def example_bot_storage example_storage_def)
  show ?thesis
    using fix_replaces_record [OF found owner cmd quote down conv up fresh step]
      found owner fresh
    by (simp add: facts)
qed

text \<open>
  C9. \<^verbatim>\<open>cmd_fix\<close> deletes before it downloads. When the owner's \<^verbatim>\<open>/fix\<close> passes the
  ownership check and the download, the conversion or the voice reply then raises, the
  handler ends with that error, has sent nothing, and leaves a store from which the record
  is removed and to which nothing is added: the old file id no longer resolves.
\<close>

theorem fix_loses_meme_on_error:
  assumes "get_by_file_id (meme_storage b) fid = Inr meme"
    and "from_user message = owner_id meme"
    and "content message = Command ''fix'' args"
    and "reply_to_voice message = Some fid"
    and "download_file e fid = Inl err \<or>
         (\<exists>audio_file. download_file e fid = Inr audio_file \<and>
            (convert_to_ogg e audio_file = Inl err \<or>
             (\<exists>fixed_file. convert_to_ogg e audio_file = Inr fixed_file \<and>
                reply_voice e fixed_file = Inl err)))"
    and "process_update e b (Message message) = (b', sent, out)"
  shows "out = Some (Raised err) \<and> sent = [] \<and>
         meme_storage b' =
           (meme_storage b)\<lparr>rows := filter (\<lambda>r. file_id r \<noteq> fid) (rows (meme_storage b))\<rparr> \<and>
         get_by_file_id (meme_storage b') fid = Inl KeyError"
proof -
  define s where "s = meme_storage b"
  define s' where "s' = s\<lparr>rows := filter (\<lambda>r. file_id r \<noteq> fid) (rows s)\<rparr>"
  have fid: "file_id meme = fid"
    using get_by_file_id_Inr [OF assms(1)] by simp
  have deleted: "delete_by_file_id s (file_id meme) (from_user message) = Inr s'"
    using assms(1,2) by (simp add: delete_by_file_id_def fid s_def s'_def)
  have "cmd_fix e s message fid = (s', [], Raised err)"
    using assms(1,5) deleted by (auto simp: cmd_fix_def s_def)
  then have "process_update e b (Message message) =
      (b\<lparr>meme_storage := s'\<rparr>, [], Some (Raised err))"
    using fix_command_runs_cmd_fix [OF assms(3,4), of e b] by (simp add: plain_def s_def)
  with assms(6) have "meme_storage b' = s'" "sent = []" "out = Some (Raised err)"
    by auto
  then show ?thesis
    by (simp add: s'_def s_def get_by_file_id_after_delete)
qed

theorem fix_loses_meme_on_error_witness:
  "get_by_file_id (meme_storage example_bot) ''AAA'' = Inr oof \<and>
   from_user (from_1 (Command ''fix'' []) (Some ''AAA'')) = owner_id oof \<and>
   download_file offline_env ''AAA'' = Inl NetworkError \<and>
   snd (snd (process_update offline_env example_bot
     (Message (from_1 (Command ''fix'' []) (Some ''AAA''))))) = Some (Raised NetworkError) \<and>
   rows (meme_storage broken_bot) = [] \<and>
   get_by_file_id (meme_storage broken_bot) ''AAA'' = Inl KeyError"
proof -
  have found: "get_by_file_id (meme_storage example_bot) ''AAA'' = Inr oof"
    by (simp add: example_bot_storage example_storage_def get_by_file_id_def oof_def)
  have owner: "from_user (from_1 (Command ''fix'' []) (Some ''AAA'')) = owner_id oof"
    by (simp add: from_1_def oof_def)
  have cmd: "content (from_1 (Command ''fix'' []) (Some ''AAA'')) = Command ''fix'' []"
    and quote: "reply_to_voice (from_1 (Command ''fix'' []) (Some ''AAA'')) = Some ''AAA''"
    by (simp_all add: from_1_def)
  have down: "download_file offline_env ''AAA'' = Inl NetworkError"
    by (simp add: offline_env_def)
  then have fails: "download_file offline_env ''AAA'' = Inl NetworkError \<or>
         (\<exists>audio_file. download_file offline_env ''AAA'' = Inr audio_file \<and>
            (convert_to_ogg offline_env audio_file = Inl NetworkError \<or>
             (\<exists>fixed_file. convert_to_ogg offline_env audio_file = Inr fixed_file \<and>
                reply_voice offline_env fixed_file = Inl NetworkError)))"
    by (rule disjI1)
  have step: "process_update offline_env example_bot
        (Message (from_1 (Command ''fix'' []) (Some ''AAA''))) =
      (broken_bot,
       fst (snd (process_update offline_env example_bot
         (Message (from_1 (Command ''fix'' []) (Some ''AAA''))))),
       snd (snd (process_update offline_env example_bot
         (Message (from_1 (Command ''fix'' []) (Some ''AAA''))))))"
    by (simp add: broken_bot_def)
  have facts: "rows (meme_storage example_bot) = [oof]" "file_id oof = ''AAA''"
    by (simp_all add: oof_def example_bot_storage example_storage_def)
  show ?thesis
    using fix_loses_meme_on_error [OF found owner cmd quote fails step] found owner down
    by (simp add: facts get_by_file_id_def)
qed

section \<open>Renaming\<close>

lemma find_by_id_stored:
  "distinct (map id' xs) \<Longrightarrow> meme \<in> set xs \<Longrightarrow>
     List.find (\<lambda>r. id' r = id' meme) xs = Some meme"
  by (induction xs) auto

lemma find_file_id_renamed:
  "List.find (\<lambda>r. file_id r = fid) (map (\<lambda>r. if P r then r\<lparr>name := n\<rparr> else r) xs) =
     map_option (\<lambda>r. if P r then r\<lparr>name := n\<rparr> else r) (List.find (\<lambda>r. file_id r = fid) xs)"
  by (induction xs) auto

lemma rename_command_runs_cmd_rename:
  assumes "content message = Command ''rename'' args"
    and "reply_to_voice message = Some fid"
  shows "process_update e b (Message message) =
           plain b (cmd_rename args (meme_storage b) message fid)"
proof -
  have "conv_handler e b message = None"
    using assms(1) by (simp add: command_not_in_conversation)
  then show ?thesis
    using assms
    by (simp add: process_update_def command_is_no_meme is_command_def command_args_def
        inject_quoted_voice_id_def)
qed

text \<open>
  The records of a store have ids, pairwise different and not above the counter. This holds
  of the empty store and every call of the store keeps it.
\<close>

lemma ids_apply_op:
  assumes "distinct (map id' (rows s))"
    and "\<forall>r \<in> set (rows s). \<exists>k. id' r = Some k \<and> k \<le> last_id s"
  shows "distinct (map id' (rows (apply_op s x))) \<and>
         (\<forall>r \<in> set (rows (apply_op s x)). \<exists>k. id' r = Some k \<and> k \<le> last_id (apply_op s x))"
proof (cases x)
  case (Add meme)
  have "Some (last_id s + 1) \<notin> id' ` set (rows s)"
    using assms(2) by force
  then show ?thesis
    using assms by (fastforce simp: Add add_def Let_def)
next
  case (Delete fid requester_id)
  show ?thesis
  proof (cases "delete_by_file_id s fid requester_id")
    case (Inl e)
    with assms show ?thesis by (simp add: Delete)
  next
    case (Inr s')
    then have "rows s' = filter (\<lambda>r. file_id r \<noteq> fid) (rows s)" and "last_id s' = last_id s"
      by (auto simp: delete_by_file_id_def split: sum.splits if_splits)
    with assms show ?thesis
      by (simp add: Delete Inr distinct_map_filter)
  qed
next
  case (Rename i new_name requester_id)
  show ?thesis
  proof (cases "rename s i new_name requester_id")
    case (Inl e)
    with assms show ?thesis by (simp add: Rename)
  next
    case (Inr s')
    then have rows': "rows s' = map (\<lambda>r. if id' r = i then r\<lparr>name := new_name\<rparr> else r) (rows s)"
      and counter: "last_id s' = last_id s"
      by (auto simp: rename_def split: option.splits if_splits)
    have kept: "id' (if id' r = i then r\<lparr>name := new_name\<rparr> else r) = id' r" for r
      by simp
    have "map id' (rows s') = map id' (rows s)"
      unfolding rows' map_map o_def kept by simp
    then have "distinct (map id' (rows s'))"
      using assms(1) by simp
    moreover have "\<forall>r \<in> set (rows s'). \<exists>k. id' r = Some k \<and> k \<le> last_id s'"
      using assms(2) by (auto simp: rows' counter)
    ultimately show ?thesis
      by (simp add: Rename Inr)
  qed
qed

lemma ids_store_after:
  assumes "distinct (map id' (rows s))"
    and "\<forall>r \<in> set (rows s). \<exists>k. id' r = Some k \<and> k \<le> last_id s"
  shows "distinct (map id' (rows (store_after s ops)))"
  using assms
proof (induction ops arbitrary: s)
  case Nil
  then show ?case by simp
next
  case (Cons x ops)
  from ids_apply_op [OF Cons.prems, of x] show ?case
    by (simp add: Cons.IH)
qed

lemma ids_distinct_from_empty:
  "distinct (map id' (rows (store_after SqliteMemeStorage ops)))"
  by (rule ids_store_after) (simp_all add: SqliteMemeStorage_def)

text \<open>
  The \<^verbatim>\<open>/rename\<close> command hands to \<^verbatim>\<open>rename\<close> the id of the record that the quoted file
  id resolves to, and reports what \<^verbatim>\<open>rename\<close> does with it.
\<close>

lemma rename_command_on_resolved_meme:
  assumes "get_by_file_id (meme_storage b) fid = Inr meme"
    and "distinct (map id' (rows (meme_storage b)))"
    and "content message = Command ''rename'' args"
    and "reply_to_voice message = Some fid"
    and "join (lit '' '') args \<noteq> []"
    and "process_update e b (Message message) = (b', sent, out)"
  shows "(from_user message = owner_id meme \<longrightarrow>
            sent = [ReplyText (lit ''The meme has been renamed to '' @ quoted (join (lit '' '') args))] \<and>
            get_by_file_id (meme_storage b') fid = Inr (meme\<lparr>name := join (lit '' '') args\<rparr>) \<and>
            rows (meme_storage b') =
              map (\<lambda>r. if r = meme then r\<lparr>name := join (lit '' '') args\<rparr> else r)
                (rows (meme_storage b)) \<and>
            last_id (meme_storage b') = last_id (meme_storage b)) \<and>
         (from_user message \<noteq> owner_id meme \<longrightarrow>
            rename (meme_storage b) (id' meme) (join (lit '' '') args) (from_user message) =
              Inl Unauthorized \<and>
            sent = [ReplyText (lit ''Sorry, you can only rename the memes you added yourself.'')] \<and>
            b' = b)"
proof -
  define s where "s = meme_storage b"
  define new_name where "new_name = join (lit '' '') args"
  define s' where
    "s' = s\<lparr>rows := map (\<lambda>r. if id' r = id' meme then r\<lparr>name := new_name\<rparr> else r) (rows s)\<rparr>"
  have stored: "meme \<in> set (rows s)" and fid: "file_id meme = fid"
    using get_by_file_id_Inr [OF assms(1)] by (simp_all add: s_def)
  have by_id: "List.find (\<lambda>r. id' r = id' meme) (rows s) = Some meme"
    using assms(2) stored by (simp add: find_by_id_stored s_def)
  have same_id: "id' r = id' meme \<longleftrightarrow> r = meme" if "r \<in> set (rows s)" for r
    using that stored assms(2) by (auto simp: s_def distinct_map inj_on_def)
  have run: "process_update e b (Message message) =
      plain b (cmd_rename args s message fid)"
    using rename_command_runs_cmd_rename [OF assms(3,4), of e b] by (simp add: s_def)
  show ?thesis
  proof (cases "from_user message = owner_id meme")
    case True
    then have "rename s (id' meme) new_name (from_user message) = Inr s'"
      by (simp add: rename_def by_id s'_def)
    then have "cmd_rename args s message fid =
        (s', [ReplyText (lit ''The meme has been renamed to '' @ quoted new_name)], Returned None)"
      using assms(1,5) by (simp add: cmd_rename_def s_def new_name_def)
    with run assms(6) have store: "meme_storage b' = s'"
      and sent: "sent = [ReplyText (lit ''The meme has been renamed to '' @ quoted new_name)]"
      by (auto simp: plain_def)
    have "List.find (\<lambda>r. file_id r = fid) (rows s) = Some meme"
      using assms(1) by (simp add: get_by_file_id_def s_def split: option.splits)
    then have lookup: "get_by_file_id s' fid = Inr (meme\<lparr>name := new_name\<rparr>)"
      by (simp add: get_by_file_id_def s'_def find_file_id_renamed)
    have "map (\<lambda>r. if id' r = id' meme then r\<lparr>name := new_name\<rparr> else r) (rows s) =
          map (\<lambda>r. if r = meme then r\<lparr>name := new_name\<rparr> else r) (rows s)"
      using same_id by (intro map_cong) auto
    then have "rows s' = map (\<lambda>r. if r = meme then r\<lparr>name := new_name\<rparr> else r) (rows s)"
      by (simp add: s'_def)
    moreover have "last_id s' = last_id s"
      by (simp add: s'_def)
    ultimately show ?thesis
      using True sent lookup by (simp add: store s_def new_name_def)
  next
    case False
    then have refused: "rename s (id' meme) new_name (from_user message) = Inl Unauthorized"
      by (simp add: rename_def by_id)
    then have "cmd_rename args s message fid =
        (s, [ReplyText (lit ''Sorry, you can only rename the memes you added yourself.'')],
         Returned None)"
      using assms(1,5) by (simp add: cmd_rename_def s_def new_name_def)
    with run assms(6) have "b' = b"
      and "sent = [ReplyText (lit ''Sorry, you can only rename the memes you added yourself.'')]"
      by (auto simp: s_def plain_same_storage)
    with False refused show ?thesis
      by (simp add: s_def new_name_def)
  qed
qed

text \<open>
  C4. In a store reached from the empty one by any history of calls, take any stored meme.
  \<^verbatim>\<open>rename\<close> with its id by its owner succeeds and yields the store in which this record
  has the new name and the id, file id, owner and use count it had, and in which every
  other record and the counter are as before. \<^verbatim>\<open>rename\<close> with its id by any other
  requester fails with Unauthorized, so that no record is changed.
\<close>

theorem rename_changes_only_name:
  assumes "s = store_after SqliteMemeStorage ops"
    and "meme \<in> set (rows s)"
  shows "(requester_id = owner_id meme \<longrightarrow>
            rename s (id' meme) new_name requester_id =
              Inr (s\<lparr>rows := map (\<lambda>r. if r = meme then r\<lparr>name := new_name\<rparr> else r) (rows s)\<rparr>)) \<and>
         (requester_id \<noteq> owner_id meme \<longrightarrow>
            rename s (id' meme) new_name requester_id = Inl Unauthorized)"
proof -
  have ids: "distinct (map id' (rows s))"
    unfolding assms(1) by (rule ids_distinct_from_empty)
  then have by_id: "List.find (\<lambda>r. id' r = id' meme) (rows s) = Some meme"
    using assms(2) by (rule find_by_id_stored)
  have same_id: "id' r = id' meme \<longleftrightarrow> r = meme" if "r \<in> set (rows s)" for r
    using that assms(2) ids by (auto simp: distinct_map inj_on_def)
  have "map (\<lambda>r. if id' r = id' meme then r\<lparr>name := new_name\<rparr> else r) (rows s) =
        map (\<lambda>r. if r = meme then r\<lparr>name := new_name\<rparr> else r) (rows s)"
    using same_id by (intro map_cong) auto
  then show ?thesis
    by (simp add: rename_def by_id)
qed

lemma shared_history:
  "store_after SqliteMemeStorage [Add (meme_b\<lparr>id' := None\<rparr>), Add (meme_a\<lparr>id' := None\<rparr>)] =
     \<lparr>rows = [meme_b, meme_a], last_id = 2\<rparr>"
  by (simp add: SqliteMemeStorage_def add_def Let_def meme_a_def meme_b_def)

theorem rename_changes_only_name_witness:
  "meme_a \<in> set (rows \<lparr>rows = [meme_b, meme_a], last_id = 2\<rparr>) \<and>
   get_by_file_id \<lparr>rows = [meme_b, meme_a], last_id = 2\<rparr> (file_id meme_a) = Inr meme_b \<and>
   rename \<lparr>rows = [meme_b, meme_a], last_id = 2\<rparr> (id' meme_a) (lit ''big a'') 1 =
     Inr \<lparr>rows = [meme_b, meme_a\<lparr>name := lit ''big a''\<rparr>], last_id = 2\<rparr> \<and>
   rename \<lparr>rows = [meme_b, meme_a], last_id = 2\<rparr> (id' meme_a) (lit ''big a'') 2 =
     Inl Unauthorized"
proof -
  have stored: "meme_a \<in> set (rows \<lparr>rows = [meme_b, meme_a], last_id = 2\<rparr>)"
    by simp
  have shadowed: "get_by_file_id \<lparr>rows = [meme_b, meme_a], last_id = 2\<rparr> (file_id meme_a) = Inr meme_b"
    by (simp add: get_by_file_id_def meme_a_def meme_b_def)
  have owner: "owner_id meme_a = 1" and differ: "meme_b \<noteq> meme_a"
    by (simp_all add: meme_a_def meme_b_def)
  show ?thesis
    using rename_changes_only_name [OF shared_history [symmetric] stored, of 1 "lit ''big a''"]
      rename_changes_only_name [OF shared_history [symmetric] stored, of 2 "lit ''big a''"]
      stored shadowed
    by (simp add: owner differ)
qed

section \<open>Inline queries\<close>

lemma results_of_memes:
  "map snd (map (\<lambda>(k, meme). (uuid4 e k, file_id meme, name meme)) (zip [0 ..< length xs] xs)) =
     map (\<lambda>meme. (file_id meme, name meme)) xs"
  by (rule nth_equalityI) simp_all

text \<open>
  C5. An inline query is answered once, with cache time 0 and at most 10 results. The
  results carry, in order, the file ids and names of the first 10 records of
  \<^verbatim>\<open>find(query)\<close> for a query that is not empty and of \<^verbatim>\<open>get_all()\<close> for the empty
  query, and of all records when there are fewer than 10; the handler returns and does not
  raise, and the bot is left as it was.
\<close>

theorem inlinequery_at_most_10:
  assumes "process_update e b (InlineQuery query) = (b', sent, out)"
    and "memes = (if query \<noteq> [] then find' (matches e) (meme_storage b) query
                  else get_all (meme_storage b))"
  shows "b' = b \<and> out = Some (Returned None) \<and>
         (\<exists>results. sent = [Answer results 0] \<and>
            length results \<le> 10 \<and>
            length results = min 10 (length memes) \<and>
            map snd results = map (\<lambda>meme. (file_id meme, name meme)) (take 10 memes))"
proof -
  define results where
    "results = map (\<lambda>(k, meme). (uuid4 e k, file_id meme, name meme))
                 (zip [0 ..< length (take 10 memes)] (take 10 memes))"
  have "inlinequery e (meme_storage b) query = (meme_storage b, [Answer results 0], Returned None)"
    by (simp add: inlinequery_def Let_def results_def assms(2))
  then have "process_update e b (InlineQuery query) = (b, [Answer results 0], Some (Returned None))"
    by (simp add: process_update_def plain_same_storage)
  with assms(1) have "b' = b" "out = Some (Returned None)" "sent = [Answer results 0]"
    by simp_all
  moreover have "length results = min 10 (length memes)"
    by (simp add: results_def min.commute)
  moreover have "map snd results = map (\<lambda>meme. (file_id meme, name meme)) (take 10 memes)"
    unfolding results_def by (rule results_of_memes)
  ultimately show ?thesis
    by simp
qed

theorem inlinequery_at_most_10_witness:
  "length (get_all (meme_storage crowded_bot)) = 11 \<and>
   snd (snd (process_update example_env crowded_bot (InlineQuery []))) = Some (Returned None) \<and>
   (\<exists>results.
      fst (snd (process_update example_env crowded_bot (InlineQuery []))) = [Answer results 0] \<and>
      length results = 10) \<and>
   (\<exists>results.
      fst (snd (process_update example_env example_bot (InlineQuery (lit ''oof'')))) = [Answer results 0] \<and>
      map snd results = [(''AAA'', lit ''oof'')])"
proof -
  have step1: "process_update example_env crowded_bot (InlineQuery []) =
      (fst (process_update example_env crowded_bot (InlineQuery [])),
       fst (snd (process_update example_env crowded_bot (InlineQuery []))),
       snd (snd (process_update example_env crowded_bot (InlineQuery []))))"
    by simp
  have all: "get_all (meme_storage crowded_bot) =
      (if [] \<noteq> [] then find' (matches example_env) (meme_storage crowded_bot) []
       else get_all (meme_storage crowded_bot))"
    by simp
  have eleven: "length (get_all (meme_storage crowded_bot)) = 11"
    by (simp add: get_all_def crowded_bot_def start_def)
  have step2: "process_update example_env example_bot (InlineQuery (lit ''oof'')) =
      (fst (process_update example_env example_bot (InlineQuery (lit ''oof''))),
       fst (snd (process_update example_env example_bot (InlineQuery (lit ''oof'')))),
       snd (snd (process_update example_env example_bot (InlineQuery (lit ''oof'')))))"
    by simp
  have found: "[oof] =
      (if lit ''oof'' \<noteq> [] then find' (matches example_env) (meme_storage example_bot) (lit ''oof'')
       else get_all (meme_storage example_bot))"
    by (simp add: find'_def example_env_def example_bot_storage example_storage_def oof_def lit_def)
  have oof: "file_id oof = ''AAA''" "name oof = lit ''oof''"
    by (simp_all add: oof_def)
  show ?thesis
    using inlinequery_at_most_10 [OF step1 all] inlinequery_at_most_10 [OF step2 found] eleven
    by (auto simp: oof)
qed

section \<open>Adding and the ids of the store\<close>







section \<open>The pending file id\<close>

lemma audio_handler_result:
  assumes "audio_handler e s message ud = (ud', s', sent, out)"
  shows "(out = Returned (Some NAME) \<and> (\<exists>fid. ud' = ud(''meme_file_id'' \<mapsto> fid))) \<or>
         ((\<exists>err. out = Raised err) \<and> ud' = ud)"
proof -
  have ask: "ask_name s ud xs fid = (ud', s', sent, out) \<Longrightarrow>
      out = Returned (Some NAME) \<and> (\<exists>fid. ud' = ud(''meme_file_id'' \<mapsto> fid))" for xs fid
    by (auto simp: ask_name_def)
  have convert: "convert_and_ask e s ud fid = (ud', s', sent, out) \<Longrightarrow>
      (out = Returned (Some NAME) \<and> (\<exists>fid. ud' = ud(''meme_file_id'' \<mapsto> fid))) \<or>
      ((\<exists>err. out = Raised err) \<and> ud' = ud)" for fid
    by (auto simp: convert_and_ask_def Let_def split: sum.splits dest: ask)
  show ?thesis
  proof (cases "content message")
    case (Voice fid)
    with assms show ?thesis by (auto simp: audio_handler_def dest: ask)
  next
    case (Audio fid)
    with assms show ?thesis by (simp add: audio_handler_def convert)
  next
    case (Document fid is_audio)
    with assms show ?thesis by (simp add: audio_handler_def convert)
  qed (use assms in \<open>auto simp: audio_handler_def\<close>)
qed

lemma name_handler_result:
  assumes "name_handler s message ud = (ud', s', sent, out)"
  shows "ud' = ud \<and> (out = Returned (Some END) \<or> (\<exists>err. out = Raised err))"
  using assms
  by (auto simp: name_handler_def Let_def split: content.splits option.splits)

lemma name_handler_returns:
  assumes "content message = Text t" and "ud ''meme_file_id'' = Some fid"
  shows "snd (snd (snd (name_handler s message ud))) = Returned (Some END)"
  using assms by (simp add: name_handler_def)

text \<open>
  The invariant of the dispatcher: an open conversation is in the state \<open>NAME\<close>, and the
  dictionary of its user holds a pending file id.
\<close>

lemma process_update_keeps_pending:
  assumes inv: "\<And>c u state. conversations b (c, u) = Some state \<Longrightarrow>
      state = NAME \<and> user_data b u ''meme_file_id'' \<noteq> None"
    and after: "conversations (fst (process_update e b upd)) (c, u) = Some state"
  shows "state = NAME \<and> user_data (fst (process_update e b upd)) u ''meme_file_id'' \<noteq> None"
proof (cases upd)
  case (InlineQuery query)
  then have "fst (process_update e b upd) = b\<lparr>meme_storage := fst (inlinequery e (meme_storage b) query)\<rparr>"
    by (simp add: process_update_def plain_def split: prod.splits)
  with inv after show ?thesis by simp
next
  case (Message message)
  show ?thesis
  proof (cases "conv_handler e b message")
    case None
    then have "\<exists>s. fst (process_update e b upd) = b\<lparr>meme_storage := s\<rparr>"
      using Message
      by (auto simp: process_update_def plain_def split: prod.splits intro: exI [of _ "meme_storage b"])
    with inv after show ?thesis by auto
  next
    case (Some r)
    define key where "key = (chat_id message, from_user message)"
    define ud where "ud = user_data b (from_user message)"
    from Some obtain ud' s' sent out where
      r: "r = in_conversation b message (ud', s', sent, out)"
      and result: "(out = Returned (Some NAME) \<and> ud' ''meme_file_id'' \<noteq> None) \<or>
                   ((out = Returned (Some END) \<or> (\<exists>err. out = Raised err)) \<and> ud' = ud)"
    proof -
      have "\<exists>ud' s' sent out. r = in_conversation b message (ud', s', sent, out) \<and>
          ((out = Returned (Some NAME) \<and> ud' ''meme_file_id'' \<noteq> None) \<or>
           ((out = Returned (Some END) \<or> (\<exists>err. out = Raised err)) \<and> ud' = ud))"
      proof (cases "conversations b (chat_id message, from_user message)")
        case None
        with Some have r: "r = in_conversation b message
            (audio_handler e (meme_storage b) message ud)"
          by (simp add: conv_handler_def Let_def ud_def split: if_splits)
        obtain ud' s' sent out where
          h: "audio_handler e (meme_storage b) message ud = (ud', s', sent, out)"
          by (metis prod_cases4)
        from audio_handler_result [OF h] r h show ?thesis
          by (intro exI [of _ ud'] exI [of _ s'] exI [of _ sent] exI [of _ out]) auto
      next
        case (Some state)
        with \<open>conv_handler e b message = Some r\<close>
        consider "r = in_conversation b message (name_handler (meme_storage b) message ud)"
          | "r = in_conversation b message (ud, cmd_cancel (meme_storage b) message)"
          by (auto simp: conv_handler_def Let_def ud_def split: if_splits)
        then show ?thesis
        proof cases
          case 1
          obtain ud' s' sent out where
            h: "name_handler (meme_storage b) message ud = (ud', s', sent, out)"
            by (metis prod_cases4)
          from name_handler_result [OF h] 1 h show ?thesis
            by (intro exI [of _ ud'] exI [of _ s'] exI [of _ sent] exI [of _ out]) auto
        next
          case 2
          then show ?thesis
            by (intro exI [of _ ud] exI [of _ "meme_storage b"]
                exI [of _ "[ReplyText (lit ''Current operation has been canceled.'')]"]
                exI [of _ "Returned (Some END)"])
              (simp add: cmd_cancel_def)
        qed
      qed
      then show ?thesis using that by blast
    qed
    have b': "fst (process_update e b upd) =
        \<lparr>meme_storage = s', conversations = update_state (conversations b) key out,
         user_data = (user_data b)(from_user message := ud')\<rparr>"
      using Message Some r by (simp add: process_update_def in_conversation_def key_def)
    have kept: "user_data b v ''meme_file_id'' \<noteq> None \<Longrightarrow>
        ((user_data b)(from_user message := ud')) v ''meme_file_id'' \<noteq> None" for v
      using result by (auto simp: ud_def)
    show ?thesis
    proof (cases "(c, u) = key \<and> out = Returned (Some NAME)")
      case True
      then have "u = from_user message" and "ud' ''meme_file_id'' \<noteq> None"
        using result by (auto simp: key_def NAME_def END_def)
      moreover have "state = NAME"
        using after True by (simp add: b' update_state_def NAME_def END_def)
      ultimately show ?thesis
        by (simp add: b')
    next
      case False
      then have "conversations b (c, u) = Some state"
        using after result
        by (auto simp: b' update_state_def NAME_def END_def split: if_splits)
      then have "state = NAME" and "user_data b u ''meme_file_id'' \<noteq> None"
        using inv by blast+
      then show ?thesis
        using kept [of u] by (simp add: b')
    qed
  qed
qed

lemma run_keeps_pending:
  assumes "\<And>c u state. conversations b (c, u) = Some state \<Longrightarrow>
      state = NAME \<and> user_data b u ''meme_file_id'' \<noteq> None"
    and "conversations (run b events) (c, u) = Some state"
  shows "state = NAME \<and> user_data (run b events) u ''meme_file_id'' \<noteq> None"
  using assms
proof (induction events arbitrary: b c u state)
  case Nil
  then show ?case by simp
next
  case (Cons x events)
  obtain e upd where x: "x = (e, upd)"
    by (cases x)
  have "conversations (run (fst (process_update e b upd)) events) (c, u) = Some state"
    using Cons.prems(2) by (simp add: x)
  moreover have "state' = NAME \<and>
      user_data (fst (process_update e b upd)) u' ''meme_file_id'' \<noteq> None"
    if "conversations (fst (process_update e b upd)) (c', u') = Some state'" for c' u' state'
    using Cons.prems(1) that by (rule process_update_keeps_pending)
  ultimately have "state = NAME \<and>
      user_data (run (fst (process_update e b upd)) events) u ''meme_file_id'' \<noteq> None"
    using Cons.IH [of "fst (process_update e b upd)" c u state] by blast
  then show ?case
    by (simp add: x)
qed

text \<open>
  C10. The bot has been started with some store and has processed any sequence of updates.
  If the conversation of a chat and a user is open, it is in the state \<open>NAME\<close> and the
  \<^verbatim>\<open>user_data\<close> of the user holds the key \<^verbatim>\<open>meme_file_id\<close>; a text message of that
  user in that chat is handed to \<^verbatim>\<open>name_handler\<close>, which returns \<^verbatim>\<open>END\<close> and does not
  raise.
\<close>

theorem name_state_has_pending_file_id:
  assumes "b = run (start s) events"
    and "conversations b (chat_id message, from_user message) = Some state"
  shows "state = NAME \<and>
         ''meme_file_id'' \<in> dom (user_data b (from_user message)) \<and>
         (is_text message \<longrightarrow>
            snd (snd (snd (name_handler (meme_storage b) message
              (user_data b (from_user message))))) = Returned (Some END) \<and>
            snd (snd (process_update e b (Message message))) = Some (Returned (Some END)))"
proof -
  have "state' = NAME \<and> user_data (start s) u ''meme_file_id'' \<noteq> None"
    if "conversations (start s) (c, u) = Some state'" for c u state'
    using that by (simp add: start_def)
  then have state: "state = NAME"
    and pending: "user_data b (from_user message) ''meme_file_id'' \<noteq> None"
    using run_keeps_pending [of "start s" events "chat_id message" "from_user message" state]
      assms by blast+
  from pending obtain fid where fid: "user_data b (from_user message) ''meme_file_id'' = Some fid"
    by blast
  have "snd (snd (snd (name_handler (meme_storage b) message
              (user_data b (from_user message))))) = Returned (Some END) \<and>
        snd (snd (process_update e b (Message message))) = Some (Returned (Some END))"
    if "is_text message"
  proof -
    from that obtain t where t: "content message = Text t"
      by (auto simp: is_text_def split: content.splits)
    have "conversations b (chat_id message, from_user message) = Some NAME"
      using assms(2) state by simp
    from name_ends_conversation [OF this fid t, of e]
      name_handler_returns [of message t "user_data b (from_user message)" fid "meme_storage b"]
      t fid
    show ?thesis by simp
  qed
  with state fid show ?thesis
    by auto
qed

theorem name_state_has_pending_file_id_witness:
  "awaiting_name_bot = run (start example_storage) [(example_env, Message (from_2 (Voice ''CCC'') None))] \<and>
   conversations awaiting_name_bot (2, 2) = Some NAME \<and>
   ''meme_file_id'' \<in> dom (user_data awaiting_name_bot 2) \<and>
   is_text (from_2 (Text (lit ''party horn'')) None) \<and>
   snd (snd (process_update example_env awaiting_name_bot
     (Message (from_2 (Text (lit ''party horn'')) None)))) = Some (Returned (Some END))"
proof -
  have reached: "awaiting_name_bot =
      run (start example_storage) [(example_env, Message (from_2 (Voice ''CCC'') None))]"
    by (simp add: awaiting_name_bot_def example_bot_def)
  have state: "conversations awaiting_name_bot
      (chat_id (from_2 (Text (lit ''party horn'')) None),
       from_user (from_2 (Text (lit ''party horn'')) None)) = Some NAME"
    by (simp add: awaiting_name_bot_eq from_2_def)
  have plain_text: "is_text (from_2 (Text (lit ''party horn'')) None)"
    by (simp add: is_text_def from_2_def)
  have key: "chat_id (from_2 (Text (lit ''party horn'')) None) = 2"
    "from_user (from_2 (Text (lit ''party horn'')) None) = 2"
    by (simp_all add: from_2_def)
  show ?thesis
    using name_state_has_pending_file_id [OF reached state, of example_env]
      reached state plain_text
    by (simp add: key)
qed

end
